theory Spec2Isabelle
  imports Complex_Main "HOL-Library.Log_Nat"
begin

section \<open>Health check endpoints (builder/backend/routes/health.py)\<close>

text \<open>
  The module probes three dependencies (the SQLAlchemy engine, a Redis server and the
  in-process TFrameX application) and composes four JSON responses from the probe results.
  The dependencies are outside the module, so every call into them is a field of a
  \<open>world\<close> record that says what the call does when it is made: it returns a value, it
  raises, or it never returns.
\<close>

subsection \<open>Outcomes of calls, \<open>try\<close>/\<open>except Exception\<close> and \<open>with\<close>\<close>

text \<open>
  \<open>exn\<close> is an instance of Python's \<open>Exception\<close>, the class the handlers of the module
  name; \<open>str\<close> is what \<open>str(e)\<close> gives for it. Every error of a database driver, of the
  Redis client and of the interpreter (\<open>ValueError\<close>, \<open>AttributeError\<close>) is one.
  \<open>KeyboardInterrupt\<close> and \<open>SystemExit\<close>, which are not, are requests to stop the process
  and have no place in the model.
\<close>

datatype exn = Exception (str: string)

text \<open>
  What evaluating a call or a block does: \<open>Returns v\<close>, raises \<open>e\<close>, or \<open>Blocks\<close> (the
  call never comes back, as a read on a socket with no timeout can).
\<close>

datatype 'a comp = Returns 'a | Raises exn | Blocks

text \<open>Sequencing of statements: the second runs only when the first has returned.\<close>

fun bind_comp :: "'a comp \<Rightarrow> ('a \<Rightarrow> 'b comp) \<Rightarrow> 'b comp" where
  "bind_comp (Returns v) f = f v"
| "bind_comp (Raises e) f = Raises e"
| "bind_comp Blocks f = Blocks"

text \<open>\<open>try: body  except Exception as e: handler\<close>.\<close>

fun try_except :: "'a comp \<Rightarrow> (exn \<Rightarrow> 'a comp) \<Rightarrow> 'a comp" where
  "try_except (Returns v) handler = Returns v"
| "try_except (Raises e) handler = handler e"
| "try_except Blocks handler = Blocks"

text \<open>
  \<open>with mgr as x: body\<close>, for a context manager whose \<open>__exit__\<close> closes the resource and
  returns a false value (SQLAlchemy's \<open>Connection\<close> and \<open>Session\<close>): \<open>exit\<close> runs after the
  body whether the body returned or raised, a fault of the body is raised again after it,
  and a fault of \<open>exit\<close> itself replaces it.
\<close>

fun with_exit :: "'a comp \<Rightarrow> unit comp \<Rightarrow> 'a comp" where
  "with_exit (Returns v) exit = bind_comp exit (\<lambda>_. Returns v)"
| "with_exit (Raises e) exit = bind_comp exit (\<lambda>_. Raises e)"
| "with_exit Blocks exit = Blocks"

subsection \<open>JSON values and Python builtins\<close>

text \<open>
  The bodies handed to \<open>jsonify\<close>. A \<open>dict\<close> keeps its keys in insertion order, so it is an
  association list. A Python \<open>float\<close> is a binary64 number, which is a rational; see
  \<open>binary64\<close> below for its arithmetic.
\<close>

datatype json =
    JNull
  | JBool bool
  | JInt int
  | JFloat rat
  | JStr string
  | JList "json list"
  | JDict "(string \<times> json) list"

text \<open>\<open>d[k]\<close> read as an option, and the keys of a dict in order.\<close>

fun jget :: "string \<Rightarrow> json \<Rightarrow> json option" where
  "jget k (JDict kvs) = map_of kvs k"
| "jget k _ = None"

fun jkeys :: "json \<Rightarrow> string list" where
  "jkeys (JDict kvs) = map fst kvs"
| "jkeys _ = []"

text \<open>\<open>all(iterable)\<close> on a list of truth values.\<close>

definition py_all :: "bool list \<Rightarrow> bool" where
  "py_all bs = list_all (\<lambda>b. b) bs"

text \<open>\<open>str(n)\<close> for an \<open>int\<close>: decimal digits, with a minus sign for a negative number.\<close>

definition digit_char :: "nat \<Rightarrow> char" where
  "digit_char d = char_of (48 + d)"

fun str_nat :: "nat \<Rightarrow> string" where
  "str_nat n = (if n < 10 then [digit_char n] else str_nat (n div 10) @ [digit_char (n mod 10)])"

declare str_nat.simps [simp del]

definition str_int :: "int \<Rightarrow> string" where
  "str_int i = (if i < 0 then CHR ''-'' # str_nat (nat (- i)) else str_nat (nat i))"

text \<open>\<open>sub in s\<close> on strings: \<open>sub\<close> occurs in \<open>s\<close> as a contiguous substring.\<close>

fun py_startswith :: "string \<Rightarrow> string \<Rightarrow> bool" where
  "py_startswith s [] = True"
| "py_startswith [] (c # sub) = False"
| "py_startswith (d # s) (c # sub) = (d = c \<and> py_startswith s sub)"

fun py_in :: "string \<Rightarrow> string \<Rightarrow> bool" where
  "py_in sub [] = (sub = [])"
| "py_in sub (d # s) = (py_startswith (d # s) sub \<or> py_in sub s)"

subsection \<open>Float arithmetic of the uptime\<close>

text \<open>
  A float operation gives the binary64 number nearest to the exact result, a tie going to
  the one with the even significand. \<open>binade x\<close> is the exponent \<open>e\<close> with
  \<open>2 ** e \<le> |x| < 2 ** (e + 1)\<close>; the floats of that binade are the multiples of
  \<open>2 ** (e - 52)\<close>, and below \<open>2 ** -1022\<close> (the subnormal range) the multiples of
  \<open>2 ** -1074\<close>. Overflow is left out: the values of the clock are far below
  \<open>2 ** 1024\<close>.
\<close>

definition round_half_even :: "rat \<Rightarrow> int" where
  "round_half_even y =
     (let f = \<lfloor>y\<rfloor>; d = y - of_int f
      in if d < 1 / 2 then f
         else if 1 / 2 < d then f + 1
         else if even f then f else f + 1)"

definition binade :: "rat \<Rightarrow> int" where
  "binade x =
     (let (p, q) = quotient_of \<bar>x\<bar>; d = bitlen p - bitlen q
      in if power_int 2 d \<le> \<bar>x\<bar> then d else d - 1)"

definition quantum :: "rat \<Rightarrow> rat" where
  "quantum x = power_int 2 (max (binade x) (- 1022) - 52)"

definition binary64_pos :: "rat \<Rightarrow> rat" where
  "binary64_pos x = of_int (round_half_even (x / quantum x)) * quantum x"

definition binary64 :: "rat \<Rightarrow> rat" where
  "binary64 x = (if x = 0 then 0 else if 0 < x then binary64_pos x else - binary64_pos (- x))"

text \<open>
  \<open>round(x, n)\<close> on a float: the decimal with \<open>n\<close> places nearest to \<open>x\<close> (a tie going
  to the even one), then the float nearest to that decimal.
\<close>

definition py_round :: "rat \<Rightarrow> nat \<Rightarrow> rat" where
  "py_round x ndigits = binary64 (of_int (round_half_even (x * 10 ^ ndigits)) / 10 ^ ndigits)"

text \<open>
  \<open>x // y\<close> and \<open>x % y\<close> (for a positive divisor, as both divisors of the module are) and
  \<open>int(x)\<close> (truncation towards zero). For a non-negative float \<open>x\<close> below \<open>2 ** 53\<close>
  and the divisors 3600 and 60 every intermediate result of these operations is itself
  a float, so they are written without rounding.
\<close>

definition py_floordiv :: "rat \<Rightarrow> rat \<Rightarrow> rat" where
  "py_floordiv x y = of_int \<lfloor>x / y\<rfloor>"

definition py_mod :: "rat \<Rightarrow> rat \<Rightarrow> rat" where
  "py_mod x y = x - y * of_int \<lfloor>x / y\<rfloor>"

definition py_int :: "rat \<Rightarrow> int" where
  "py_int x = (if 0 \<le> x then \<lfloor>x\<rfloor> else \<lceil>x\<rceil>)"

subsection \<open>The world outside the module\<close>

text \<open>The TFrameX application object: the keys of its \<open>_agents\<close> and \<open>_tools\<close> dicts.\<close>

record tframex_app =
  agents :: "string list"
  tools :: "string list"

text \<open>
  A Redis server as a client sees it. \<open>connect_after\<close> is how long the connection attempt
  takes (\<open>Never\<close> when nothing answers), \<open>connect_result\<close> what it yields once it is over
  (refused, or established), and \<open>ping_reply\<close> what the exchange on the established socket
  does.
\<close>

datatype latency = After rat | Never

fun longer_than :: "latency \<Rightarrow> rat \<Rightarrow> bool" where
  "longer_than Never t = True"
| "longer_than (After s) t = (t < s)"

record redis_server =
  connect_after :: latency
  connect_result :: "exn + unit"
  ping_reply :: "unit comp"

text \<open>
  The client \<open>redis.Redis(host=, port=, password=, decode_responses=, socket_connect_timeout=)\<close>
  as constructed; the constructor opens no connection. \<open>socket_timeout\<close> is the keyword the
  module does not pass (the library's default is \<open>None\<close>: reads on the socket wait without
  limit).
\<close>

record redis_client =
  host :: string
  port :: int
  password :: "string option"
  decode_responses :: bool
  socket_connect_timeout :: "rat option"

text \<open>
  What the module finds outside itself during one request. The clock:
  \<open>datetime.utcnow().isoformat()\<close> and \<open>time.time()\<close>. The environment: \<open>os.environ\<close>,
  and \<open>int\<close> applied to a string (the builtin, \<open>Inl\<close> its \<open>ValueError\<close>). The database
  probe: \<open>engine.connect()\<close>, \<open>conn.execute(text("SELECT 1"))\<close>, \<open>result.fetchone()\<close>
  and the close of the connection on leaving the \<open>with\<close> block. The cache: the server
  found at a host and port with a password, and the error the client raises when the
  connect timeout expires. The registry: \<open>get_tframex_app_instance()\<close>, once for the
  probe and once more for the details of the detailed report. The metrics block:
  \<open>LocalSession()\<close>, the three \<open>SELECT COUNT(*)\<close> queries with their \<open>scalar()\<close>, and
  the close of the session.
\<close>

record world =
  utcnow_isoformat :: string
  time_time :: rat
  environ :: "string \<rightharpoonup> string"
  int_of_str :: "string \<Rightarrow> exn + int"
  engine_connect :: "unit comp"
  conn_execute :: "unit comp"
  result_fetchone :: "unit comp"
  conn_close :: "unit comp"
  redis_server_at :: "string \<Rightarrow> int \<Rightarrow> string option \<Rightarrow> redis_server"
  redis_timeout_error :: exn
  get_tframex_app_instance :: "tframex_app comp"
  get_tframex_app_instance_again :: "tframex_app comp"
  LocalSession :: "unit comp"
  count_projects :: "int comp"
  count_flows :: "int comp"
  count_users :: "int comp"
  session_close :: "unit comp"

text \<open>\<open>os.getenv(name)\<close> and \<open>os.getenv(name, default)\<close> with a string default.\<close>

definition getenv :: "world \<Rightarrow> string \<Rightarrow> string option" where
  "getenv w name = environ w name"

definition getenv_default :: "world \<Rightarrow> string \<Rightarrow> string \<Rightarrow> string" where
  "getenv_default w name dflt = (case environ w name of None \<Rightarrow> dflt | Some v \<Rightarrow> v)"

text \<open>
  \<open>int(os.getenv('REDIS_PORT', 6379))\<close>: the default is already an \<open>int\<close>; a value that is
  set is a string, and \<open>int\<close> of a string that is no numeral raises \<open>ValueError\<close>.
\<close>

definition getenv_redis_port :: "world \<Rightarrow> int comp" where
  "getenv_redis_port w =
     (case environ w ''REDIS_PORT'' of
        None \<Rightarrow> Returns 6379
      | Some s \<Rightarrow> (case int_of_str w s of Inl e \<Rightarrow> Raises e | Inr n \<Rightarrow> Returns n))"

text \<open>
  \<open>r.ping()\<close>: the client connects on first use. With a connect timeout the attempt is
  given up once it has taken longer, raising the library's timeout error; without one the
  attempt waits for as long as it takes. The exchange that follows runs on the established
  socket.
\<close>

definition redis_connect :: "world \<Rightarrow> redis_client \<Rightarrow> unit comp" where
  "redis_connect w r =
     (let srv = redis_server_at w (host r) (port r) (password r)
      in case socket_connect_timeout r of
           None \<Rightarrow>
             (if connect_after srv = Never then Blocks
              else case connect_result srv of Inl e \<Rightarrow> Raises e | Inr u \<Rightarrow> Returns u)
         | Some t \<Rightarrow>
             (if longer_than (connect_after srv) t then Raises (redis_timeout_error w)
              else case connect_result srv of Inl e \<Rightarrow> Raises e | Inr u \<Rightarrow> Returns u))"

definition redis_ping :: "world \<Rightarrow> redis_client \<Rightarrow> unit comp" where
  "redis_ping w r =
     bind_comp (redis_connect w r)
       (\<lambda>_. ping_reply (redis_server_at w (host r) (port r) (password r)))"

subsection \<open>The probes\<close>

definition check_database_connection :: "world \<Rightarrow> (bool \<times> string) comp" where
  "check_database_connection w =
     try_except
       (bind_comp (engine_connect w) (\<lambda>conn.
        bind_comp
          (with_exit
             (bind_comp (conn_execute w) (\<lambda>result. result_fetchone w))
             (conn_close w))
          (\<lambda>_. Returns (True, ''Connected''))))
       (\<lambda>e. Returns (False, str e))"

definition check_redis_connection :: "world \<Rightarrow> (bool \<times> string) comp" where
  "check_redis_connection w =
     try_except
       (let redis_host = getenv_default w ''REDIS_HOST'' ''localhost''
        in bind_comp (getenv_redis_port w) (\<lambda>redis_port.
           let redis_password = getenv w ''REDIS_PASSWORD'';
               r = \<lparr>host = redis_host, port = redis_port, password = redis_password,
                    decode_responses = True, socket_connect_timeout = Some 2\<rparr>
           in bind_comp (redis_ping w r) (\<lambda>_. Returns (True, ''Connected''))))
       (\<lambda>e. Returns (False, str e))"

definition check_tframex :: "world \<Rightarrow> (bool \<times> string) comp" where
  "check_tframex w =
     try_except
       (bind_comp (get_tframex_app_instance w) (\<lambda>tframex_app.
          let agent_count = length (agents tframex_app);
              tool_count = length (tools tframex_app)
          in Returns (True, str_nat agent_count @ '' agents, '' @ str_nat tool_count
                            @ '' tools registered'')))
       (\<lambda>e. Returns (False, str e))"

subsection \<open>The endpoints\<close>

text \<open>
  Each endpoint returns the body given to \<open>jsonify\<close> and the HTTP status code.
  \<open>START_TIME\<close> is the module constant set from \<open>time.time()\<close> when the module is
  imported (\<open>module_START_TIME\<close>, in the world of that moment); no function of the module
  assigns it, so the endpoints take it as an argument and give nothing back for it.
\<close>

definition module_START_TIME :: "world \<Rightarrow> rat" where
  "module_START_TIME w = time_time w"

definition health :: "rat \<Rightarrow> world \<Rightarrow> json \<times> nat" where
  "health START_TIME w =
     (let uptime = binary64 (time_time w - START_TIME)
      in (JDict [(''status'', JStr ''healthy''),
                 (''timestamp'', JStr (utcnow_isoformat w)),
                 (''uptime_seconds'', JFloat (py_round uptime 2)),
                 (''version'', JStr ''1.0.0''),
                 (''service'', JStr ''prossima-ai-backend''),
                 (''company'', JStr ''Prossimagen Technologies'')], 200))"

definition liveness :: "world \<Rightarrow> json \<times> nat" where
  "liveness w =
     (JDict [(''status'', JStr ''alive''),
             (''timestamp'', JStr (utcnow_isoformat w))], 200)"

definition readiness :: "world \<Rightarrow> (json \<times> nat) comp" where
  "readiness w =
     bind_comp (check_database_connection w) (\<lambda>database.
     bind_comp (check_redis_connection w) (\<lambda>redis.
     bind_comp (check_tframex w) (\<lambda>tframex.
       let checks = [(''database'', database), (''redis'', redis), (''tframex'', tframex)];
           all_healthy = py_all (map (\<lambda>(status, _). status) (map snd checks));
           status_code = (if all_healthy then 200 else 503);
           response =
             JDict [(''status'', JStr (if all_healthy then ''ready'' else ''not_ready'')),
                    (''timestamp'', JStr (utcnow_isoformat w)),
                    (''checks'',
                       JDict (map (\<lambda>(name, (status, message)).
                                     (name, JDict [(''status'', JStr (if status then ''pass'' else ''fail'')),
                                                   (''message'', JStr message)]))
                                  checks))]
       in Returns (response, status_code))))"

text \<open>The block of lines 109 to 121: three counts in one session, or \<open>None\<close>.\<close>

definition db_metrics :: "world \<Rightarrow> json comp" where
  "db_metrics w =
     try_except
       (bind_comp (LocalSession w) (\<lambda>session.
        bind_comp
          (with_exit
             (bind_comp (count_projects w) (\<lambda>project_count.
              bind_comp (count_flows w) (\<lambda>flow_count.
              bind_comp (count_users w) (\<lambda>user_count.
                Returns (project_count, flow_count, user_count)))))
             (session_close w))
          (\<lambda>(project_count, flow_count, user_count).
             Returns (JDict [(''projects'', JInt project_count),
                             (''flows'', JInt flow_count),
                             (''users'', JInt user_count)]))))
       (\<lambda>e. Returns JNull)"

text \<open>The block of lines 124 to 132: the names of the agents and tools, or \<open>None\<close>.\<close>

definition tframex_details :: "world \<Rightarrow> json comp" where
  "tframex_details w =
     try_except
       (bind_comp (get_tframex_app_instance_again w) (\<lambda>tframex_app.
          Returns (JDict [(''agents'', JList (map JStr (agents tframex_app))),
                          (''tools'', JList (map JStr (tools tframex_app))),
                          (''patterns'', JList [JStr ''sequential'', JStr ''parallel'',
                                                JStr ''router'', JStr ''discussion''])])))
       (\<lambda>e. Returns JNull)"

text \<open>The f-string of line 142.\<close>

definition human_readable :: "rat \<Rightarrow> string" where
  "human_readable uptime =
     str_int (py_int (py_floordiv uptime 3600)) @ ''h '' @
     str_int (py_int (py_floordiv (py_mod uptime 3600) 60)) @ ''m '' @
     str_int (py_int (py_mod uptime 60)) @ ''s''"

definition detailed_health :: "rat \<Rightarrow> world \<Rightarrow> (json \<times> nat) comp" where
  "detailed_health START_TIME w =
     (let uptime = binary64 (time_time w - START_TIME)
      in bind_comp (check_database_connection w) (\<lambda>(db_status, db_message).
         bind_comp (check_redis_connection w) (\<lambda>(redis_status, redis_message).
         bind_comp (check_tframex w) (\<lambda>(tframex_status, tframex_message).
         bind_comp (db_metrics w) (\<lambda>db_metrics.
         bind_comp (tframex_details w) (\<lambda>tframex_details.
           let response =
                 JDict [(''status'', JStr (if py_all [db_status, redis_status, tframex_status]
                                           then ''healthy'' else ''degraded'')),
                        (''timestamp'', JStr (utcnow_isoformat w)),
                        (''version'', JStr ''1.0.0''),
                        (''service'', JStr ''prossima-ai-backend''),
                        (''company'', JStr ''Prossimagen Technologies''),
                        (''uptime'',
                           JDict [(''seconds'', JFloat (py_round uptime 2)),
                                  (''human_readable'', JStr (human_readable uptime))]),
                        (''components'',
                           JDict [(''database'',
                                     JDict [(''status'', JStr (if db_status then ''healthy'' else ''unhealthy'')),
                                            (''message'', JStr db_message),
                                            (''metrics'', db_metrics)]),
                                  (''redis'',
                                     JDict [(''status'', JStr (if redis_status then ''healthy'' else ''unhealthy'')),
                                            (''message'', JStr redis_message)]),
                                  (''tframex'',
                                     JDict [(''status'', JStr (if tframex_status then ''healthy'' else ''unhealthy'')),
                                            (''message'', JStr tframex_message),
                                            (''details'', tframex_details)])]),
                        (''environment'',
                           JDict [(''flask_env'', JStr (getenv_default w ''FLASK_ENV'' ''production'')),
                                  (''database_url'',
                                     JStr (if py_in ''postgresql'' (getenv_default w ''DATABASE_URL'' [])
                                           then ''postgresql'' else ''sqlite'')),
                                  (''redis_host'', JStr (getenv_default w ''REDIS_HOST'' ''localhost''))])];
               status_code = (if py_all [db_status, redis_status, tframex_status] then 200 else 503)
           in Returns (response, status_code)))))))"

text \<open>
  No call into a dependency blocks: the condition under which every endpoint returns.
\<close>

definition responsive :: "world \<Rightarrow> bool" where
  "responsive w \<longleftrightarrow>
     engine_connect w \<noteq> Blocks \<and> conn_execute w \<noteq> Blocks \<and> result_fetchone w \<noteq> Blocks \<and>
     conn_close w \<noteq> Blocks \<and>
     (\<forall>h p pw. ping_reply (redis_server_at w h p pw) \<noteq> Blocks) \<and>
     get_tframex_app_instance w \<noteq> Blocks \<and> get_tframex_app_instance_again w \<noteq> Blocks \<and>
     LocalSession w \<noteq> Blocks \<and> count_projects w \<noteq> Blocks \<and> count_flows w \<noteq> Blocks \<and>
     count_users w \<noteq> Blocks \<and> session_close w \<noteq> Blocks"

text \<open>
  A world to evaluate the endpoints in: every dependency is up, the database URL names
  PostgreSQL, and the clock reads 3725.5 seconds.
\<close>

definition redis_server_up :: redis_server where
  "redis_server_up = \<lparr>connect_after = After (1 / 100), connect_result = Inr (), ping_reply = Returns ()\<rparr>"

definition world_up :: world where
  "world_up =
     \<lparr>utcnow_isoformat = ''2024-01-01T00:00:00'',
      time_time = 7451 / 2,
      environ = [''DATABASE_URL'' \<mapsto> ''postgresql://db/app''],
      int_of_str = (\<lambda>s. Inl (Exception ''invalid literal for int()'')),
      engine_connect = Returns (),
      conn_execute = Returns (),
      result_fetchone = Returns (),
      conn_close = Returns (),
      redis_server_at = (\<lambda>h p pw. redis_server_up),
      redis_timeout_error = Exception ''Timeout connecting to server'',
      get_tframex_app_instance = Returns \<lparr>agents = [''planner'', ''coder''], tools = [''search'']\<rparr>,
      get_tframex_app_instance_again = Returns \<lparr>agents = [''planner'', ''coder''], tools = [''search'']\<rparr>,
      LocalSession = Returns (),
      count_projects = Returns 3,
      count_flows = Returns 5,
      count_users = Returns 2,
      session_close = Returns ()\<rparr>"

subsection \<open>What the claims speak of\<close>

text \<open>A field of a response body, by the path of keys that leads to it.\<close>

fun jpath :: "string list \<Rightarrow> json \<Rightarrow> json option" where
  "jpath [] j = Some j"
| "jpath (k # ks) j = (case jget k j of None \<Rightarrow> None | Some v \<Rightarrow> jpath ks v)"

text \<open>The \<open>ok\<close> of a probe result; a probe that gave no result has none.\<close>

fun probe_ok :: "(bool \<times> string) comp \<Rightarrow> bool" where
  "probe_ok (Returns (ok, message)) = ok"
| "probe_ok _ = False"

definition all_probes_ok :: "world \<Rightarrow> bool" where
  "all_probes_ok w \<longleftrightarrow>
     probe_ok (check_database_connection w) \<and> probe_ok (check_redis_connection w) \<and>
     probe_ok (check_tframex w)"

text \<open>
  The dependency calls of each probe, as the world decides them. \<open>database_up\<close>: every call
  of the round trip returns; \<open>database_fault w e\<close>: one of them raises \<open>e\<close>.
\<close>

definition database_up :: "world \<Rightarrow> bool" where
  "database_up w \<longleftrightarrow>
     engine_connect w = Returns () \<and> conn_execute w = Returns () \<and>
     result_fetchone w = Returns () \<and> conn_close w = Returns ()"

definition database_fault :: "world \<Rightarrow> exn \<Rightarrow> bool" where
  "database_fault w e \<longleftrightarrow>
     Raises e \<in> set [engine_connect w, conn_execute w, result_fetchone w, conn_close w]"

text \<open>The server the cache probe addresses once the port has been read as \<open>p\<close>.\<close>

definition redis_target :: "world \<Rightarrow> int \<Rightarrow> redis_server" where
  "redis_target w p =
     redis_server_at w (getenv_default w ''REDIS_HOST'' ''localhost'') p (getenv w ''REDIS_PASSWORD'')"

definition redis_up :: "world \<Rightarrow> bool" where
  "redis_up w \<longleftrightarrow>
     (case getenv_redis_port w of
        Returns p \<Rightarrow>
          \<not> longer_than (connect_after (redis_target w p)) 2 \<and>
          connect_result (redis_target w p) = Inr () \<and>
          ping_reply (redis_target w p) = Returns ()
      | _ \<Rightarrow> False)"

definition redis_fault :: "world \<Rightarrow> exn \<Rightarrow> bool" where
  "redis_fault w e \<longleftrightarrow>
     (case getenv_redis_port w of
        Returns p \<Rightarrow>
          (longer_than (connect_after (redis_target w p)) 2 \<and> e = redis_timeout_error w) \<or>
          connect_result (redis_target w p) = Inl e \<or>
          ping_reply (redis_target w p) = Raises e
      | Raises e' \<Rightarrow> e = e'
      | Blocks \<Rightarrow> False)"

definition tframex_up :: "world \<Rightarrow> bool" where
  "tframex_up w \<longleftrightarrow> (case get_tframex_app_instance w of Returns app \<Rightarrow> True | _ \<Rightarrow> False)"

definition tframex_fault :: "world \<Rightarrow> exn \<Rightarrow> bool" where
  "tframex_fault w e \<longleftrightarrow> get_tframex_app_instance w = Raises e"

text \<open>The message of the registry probe on success.\<close>

definition tframex_message :: "world \<Rightarrow> string" where
  "tframex_message w =
     (case get_tframex_app_instance w of
        Returns app \<Rightarrow> str_nat (length (agents app)) @ '' agents, '' @
                       str_nat (length (tools app)) @ '' tools registered''
      | _ \<Rightarrow> [])"

text \<open>
  The calls of the metrics block (lines 109 to 121). \<open>metrics_fault w e\<close>: one of them
  raises \<open>e\<close>; \<open>metrics_succeed p f u w\<close>: the world \<open>w\<close> with the block succeeding instead
  and the three counts being \<open>p\<close>, \<open>f\<close> and \<open>u\<close>.
\<close>

definition metrics_fault :: "world \<Rightarrow> exn \<Rightarrow> bool" where
  "metrics_fault w e \<longleftrightarrow>
     LocalSession w = Raises e \<or> count_projects w = Raises e \<or> count_flows w = Raises e \<or>
     count_users w = Raises e \<or> session_close w = Raises e"

definition metrics_succeed :: "int \<Rightarrow> int \<Rightarrow> int \<Rightarrow> world \<Rightarrow> world" where
  "metrics_succeed p f u w =
     w\<lparr>LocalSession := Returns (), count_projects := Returns p, count_flows := Returns f,
       count_users := Returns u, session_close := Returns ()\<rparr>"

text \<open>The body and the status code of a response; a request that got no response has none.\<close>

fun body_of :: "(json \<times> nat) comp \<Rightarrow> json option" where
  "body_of (Returns (body, code)) = Some body"
| "body_of _ = None"

fun code_of :: "(json \<times> nat) comp \<Rightarrow> nat option" where
  "code_of (Returns (body, code)) = Some code"
| "code_of _ = None"

text \<open>
  Worlds with one dependency down: the cache server refuses the connection; the cache
  server never answers the connection attempt; the database never answers; the \<open>flows\<close>
  table is missing.
\<close>

definition world_redis_refused :: world where
  "world_redis_refused =
     world_up\<lparr>redis_server_at :=
       (\<lambda>h p pw. \<lparr>connect_after = After (1 / 100),
                   connect_result = Inl (Exception ''Connection refused''),
                   ping_reply = Returns ()\<rparr>)\<rparr>"

definition world_redis_unreachable :: world where
  "world_redis_unreachable =
     world_up\<lparr>redis_server_at :=
       (\<lambda>h p pw. \<lparr>connect_after = Never, connect_result = Inr (), ping_reply = Blocks\<rparr>)\<rparr>"

definition world_db_hangs :: world where
  "world_db_hangs = world_up\<lparr>engine_connect := Blocks\<rparr>"

definition world_redis_silent :: world where
  "world_redis_silent =
     world_up\<lparr>redis_server_at :=
       (\<lambda>h p pw. \<lparr>connect_after = After (1 / 100), connect_result = Inr (),
                   ping_reply = Blocks\<rparr>)\<rparr>"

definition world_no_flows_table :: world where
  "world_no_flows_table =
     world_up\<lparr>count_flows := Raises (Exception ''no such table: flows'')\<rparr>"

text \<open>
  The world in which the dependencies of a chosen subset of the probes fail (by raising)
  and the others answer: \<open>fd\<close>, \<open>fr\<close> and \<open>ft\<close> say whether the database, the cache
  and the registry are in the subset.
\<close>

definition forced_failures :: "bool \<Rightarrow> bool \<Rightarrow> bool \<Rightarrow> world" where
  "forced_failures fd fr ft =
     world_up
       \<lparr>engine_connect := (if fd then Raises (Exception ''connection refused'') else Returns ()),
        redis_server_at :=
          (\<lambda>h p pw. \<lparr>connect_after = After (1 / 100),
                      connect_result = (if fr then Inl (Exception ''Connection refused'') else Inr ()),
                      ping_reply = Returns ()\<rparr>),
        get_tframex_app_instance :=
          (if ft then Raises (Exception ''TFrameX is not initialized'')
           else Returns \<lparr>agents = [], tools = []\<rparr>)\<rparr>"




section \<open>Properties\<close>

subsection \<open>The probes never raise, and return when the dependencies answer\<close>

lemma try_except_never_raises: "try_except body (\<lambda>e. Returns (h e)) \<noteq> Raises e'"
  by (cases body) simp_all

lemma check_database_connection_no_raise: "check_database_connection w \<noteq> Raises e"
  unfolding check_database_connection_def by (rule try_except_never_raises)

lemma check_redis_connection_no_raise: "check_redis_connection w \<noteq> Raises e"
  unfolding check_redis_connection_def by (rule try_except_never_raises)

lemma check_tframex_no_raise: "check_tframex w \<noteq> Raises e"
  unfolding check_tframex_def by (rule try_except_never_raises)

lemma database_probe:
  assumes "responsive w"
  shows "\<exists>ok msg. check_database_connection w = Returns (ok, msg) \<and> (ok \<longleftrightarrow> database_up w) \<and>
           (if ok then msg = ''Connected'' else \<exists>e. msg = str e \<and> database_fault w e)"
proof -
  from assms have nb: "engine_connect w \<noteq> Blocks" "conn_execute w \<noteq> Blocks"
    "result_fetchone w \<noteq> Blocks" "conn_close w \<noteq> Blocks"
    by (simp_all add: responsive_def)
  show ?thesis
    using nb
    by (cases "engine_connect w"; cases "conn_execute w"; cases "result_fetchone w";
        cases "conn_close w")
       (auto simp: check_database_connection_def database_up_def database_fault_def)
qed

lemma redis_probe:
  assumes "responsive w"
  shows "\<exists>ok msg. check_redis_connection w = Returns (ok, msg) \<and> (ok \<longleftrightarrow> redis_up w) \<and>
           (if ok then msg = ''Connected'' else \<exists>e. msg = str e \<and> redis_fault w e)"
proof -
  have port_nb: "getenv_redis_port w \<noteq> Blocks"
    by (simp add: getenv_redis_port_def split: option.splits sum.splits)
  show ?thesis
  proof (cases "getenv_redis_port w")
    case (Returns p)
    from assms have nb: "ping_reply (redis_target w p) \<noteq> Blocks"
      by (simp add: responsive_def redis_target_def)
    show ?thesis
      using nb Returns
      by (cases "ping_reply (redis_target w p)"; cases "connect_result (redis_target w p)")
         (auto simp: check_redis_connection_def redis_up_def redis_fault_def redis_ping_def
            redis_connect_def redis_target_def Let_def)
  next
    case (Raises e)
    then show ?thesis
      by (auto simp: check_redis_connection_def redis_up_def redis_fault_def Let_def)
  next
    case Blocks
    with port_nb show ?thesis by simp
  qed
qed

lemma tframex_probe:
  assumes "responsive w"
  shows "\<exists>ok msg. check_tframex w = Returns (ok, msg) \<and> (ok \<longleftrightarrow> tframex_up w) \<and>
           (if ok then msg = tframex_message w else \<exists>e. msg = str e \<and> tframex_fault w e)"
proof -
  from assms have nb: "get_tframex_app_instance w \<noteq> Blocks"
    by (simp add: responsive_def)
  then show ?thesis
    by (cases "get_tframex_app_instance w")
       (auto simp: check_tframex_def tframex_up_def tframex_fault_def tframex_message_def Let_def)
qed

subsection \<open>The endpoints, once the probes have returned\<close>

lemma readiness_unfold:
  assumes "check_database_connection w = Returns (a, ma)"
    and "check_redis_connection w = Returns (b, mb)"
    and "check_tframex w = Returns (c, mc)"
  shows "readiness w =
     Returns (JDict [(''status'', JStr (if a \<and> b \<and> c then ''ready'' else ''not_ready'')),
                     (''timestamp'', JStr (utcnow_isoformat w)),
                     (''checks'',
                        JDict [(''database'', JDict [(''status'', JStr (if a then ''pass'' else ''fail'')),
                                                     (''message'', JStr ma)]),
                               (''redis'', JDict [(''status'', JStr (if b then ''pass'' else ''fail'')),
                                                  (''message'', JStr mb)]),
                               (''tframex'', JDict [(''status'', JStr (if c then ''pass'' else ''fail'')),
                                                    (''message'', JStr mc)])])],
              if a \<and> b \<and> c then 200 else 503)"
  using assms by (simp add: readiness_def py_all_def Let_def)

lemma db_metrics_returns:
  assumes "responsive w"
  shows "\<exists>m. db_metrics w = Returns m"
proof -
  from assms have nb: "LocalSession w \<noteq> Blocks" "count_projects w \<noteq> Blocks"
    "count_flows w \<noteq> Blocks" "count_users w \<noteq> Blocks" "session_close w \<noteq> Blocks"
    by (simp_all add: responsive_def)
  show ?thesis
    using nb
    by (cases "LocalSession w"; cases "count_projects w"; cases "count_flows w";
        cases "count_users w"; cases "session_close w")
       (auto simp: db_metrics_def)
qed

lemma tframex_details_returns:
  assumes "responsive w"
  shows "\<exists>d. tframex_details w = Returns d"
proof -
  from assms have "get_tframex_app_instance_again w \<noteq> Blocks"
    by (simp add: responsive_def)
  then show ?thesis
    by (cases "get_tframex_app_instance_again w") (auto simp: tframex_details_def)
qed

lemma detailed_health_unfold:
  assumes "check_database_connection w = Returns (a, ma)"
    and "check_redis_connection w = Returns (b, mb)"
    and "check_tframex w = Returns (c, mc)"
    and "db_metrics w = Returns m"
    and "tframex_details w = Returns d"
  shows "detailed_health START_TIME w =
     Returns (JDict [(''status'', JStr (if a \<and> b \<and> c then ''healthy'' else ''degraded'')),
                        (''timestamp'', JStr (utcnow_isoformat w)),
                        (''version'', JStr ''1.0.0''),
                        (''service'', JStr ''prossima-ai-backend''),
                        (''company'', JStr ''Prossimagen Technologies''),
                        (''uptime'',
                           JDict [(''seconds'', JFloat (py_round (binary64 (time_time w - START_TIME)) 2)),
                                  (''human_readable'',
                                     JStr (human_readable (binary64 (time_time w - START_TIME))))]),
                        (''components'',
                           JDict [(''database'',
                                     JDict [(''status'', JStr (if a then ''healthy'' else ''unhealthy'')),
                                            (''message'', JStr ma),
                                            (''metrics'', m)]),
                                  (''redis'',
                                     JDict [(''status'', JStr (if b then ''healthy'' else ''unhealthy'')),
                                            (''message'', JStr mb)]),
                                  (''tframex'',
                                     JDict [(''status'', JStr (if c then ''healthy'' else ''unhealthy'')),
                                            (''message'', JStr mc),
                                            (''details'', d)])]),
                        (''environment'',
                           JDict [(''flask_env'', JStr (getenv_default w ''FLASK_ENV'' ''production'')),
                                  (''database_url'',
                                     JStr (if py_in ''postgresql'' (getenv_default w ''DATABASE_URL'' [])
                                           then ''postgresql'' else ''sqlite'')),
                                  (''redis_host'', JStr (getenv_default w ''REDIS_HOST'' ''localhost''))])],
              if a \<and> b \<and> c then 200 else 503)"
  using assms by (simp add: detailed_health_def py_all_def Let_def)

lemma world_up_responsive: "responsive world_up"
  by (simp add: responsive_def world_up_def redis_server_up_def)

lemma world_redis_refused_responsive: "responsive world_redis_refused"
  by (simp add: responsive_def world_up_def world_redis_refused_def)

subsection \<open>The verdict of the readiness and detailed endpoints\<close>

text \<open>
  C1. When the dependencies answer, \<open>/health/ready\<close> responds with status \<open>ready\<close> and code
  200 exactly when every probe's \<open>ok\<close> is true, and with \<open>not_ready\<close> and 503 exactly when
  some probe's \<open>ok\<close> is false; \<open>/health/detailed\<close> responds with \<open>healthy\<close> and 200, or
  \<open>degraded\<close> and 503, by the same rule.
\<close>

theorem verdict_is_conjunction:
  assumes "responsive w"
  shows "(\<exists>body code. readiness w = Returns (body, code) \<and>
            (jget ''status'' body = Some (JStr ''ready'') \<longleftrightarrow> all_probes_ok w) \<and>
            (code = 200 \<longleftrightarrow> all_probes_ok w) \<and>
            (jget ''status'' body = Some (JStr ''not_ready'') \<longleftrightarrow> \<not> all_probes_ok w) \<and>
            (code = 503 \<longleftrightarrow> \<not> all_probes_ok w)) \<and>
         (\<exists>body code. detailed_health START_TIME w = Returns (body, code) \<and>
            (jget ''status'' body = Some (JStr ''healthy'') \<longleftrightarrow> all_probes_ok w) \<and>
            (code = 200 \<longleftrightarrow> all_probes_ok w) \<and>
            (jget ''status'' body = Some (JStr ''degraded'') \<longleftrightarrow> \<not> all_probes_ok w) \<and>
            (code = 503 \<longleftrightarrow> \<not> all_probes_ok w))"
proof -
  from database_probe [OF assms] obtain a ma where a: "check_database_connection w = Returns (a, ma)"
    by blast
  from redis_probe [OF assms] obtain b mb where b: "check_redis_connection w = Returns (b, mb)"
    by blast
  from tframex_probe [OF assms] obtain c mc where c: "check_tframex w = Returns (c, mc)"
    by blast
  from db_metrics_returns [OF assms] obtain m where m: "db_metrics w = Returns m"
    by blast
  from tframex_details_returns [OF assms] obtain d where d: "tframex_details w = Returns d"
    by blast
  have ok: "all_probes_ok w \<longleftrightarrow> a \<and> b \<and> c"
    by (simp add: all_probes_ok_def a b c)
  have r: ?thesis if "a \<and> b \<and> c"
    using that ok by (simp add: readiness_unfold [OF a b c] detailed_health_unfold [OF a b c m d])
  have r': ?thesis if "\<not> (a \<and> b \<and> c)"
    unfolding readiness_unfold [OF a b c] detailed_health_unfold [OF a b c m d] ok
    using that by simp
  from r r' show ?thesis by blast
qed

theorem verdict_is_conjunction_witness:
  "responsive world_redis_refused \<and> \<not> all_probes_ok world_redis_refused \<and>
   code_of (readiness world_redis_refused) = Some 503 \<and>
   code_of (detailed_health 0 world_redis_refused) = Some 503"
proof -
  have nok: "\<not> all_probes_ok world_redis_refused"
    by code_simp
  from verdict_is_conjunction [OF world_redis_refused_responsive, of 0] nok
  show ?thesis
    using world_redis_refused_responsive by auto
qed

subsection \<open>Faults stop at the probe boundary\<close>

text \<open>
  C3. No probe raises, whatever its dependency does. When the dependencies answer, each
  probe returns: \<open>ok\<close> is true exactly when every call into the dependency returned, with
  the success message; otherwise \<open>ok\<close> is false and the message is \<open>str(e)\<close> of a fault
  \<open>e\<close> that a call into the dependency raised.
\<close>

theorem probes_total_at_boundary:
  "check_database_connection w \<noteq> Raises e \<and> check_redis_connection w \<noteq> Raises e \<and>
   check_tframex w \<noteq> Raises e \<and>
   (responsive w \<longrightarrow>
      (\<exists>msg. check_database_connection w = Returns (database_up w, msg) \<and>
         (if database_up w then msg = ''Connected''
          else \<exists>e'. msg = str e' \<and> database_fault w e')) \<and>
      (\<exists>msg. check_redis_connection w = Returns (redis_up w, msg) \<and>
         (if redis_up w then msg = ''Connected''
          else \<exists>e'. msg = str e' \<and> redis_fault w e')) \<and>
      (\<exists>msg. check_tframex w = Returns (tframex_up w, msg) \<and>
         (if tframex_up w then msg = tframex_message w
          else \<exists>e'. msg = str e' \<and> tframex_fault w e')))"
proof -
  have "check_database_connection w \<noteq> Raises e" "check_redis_connection w \<noteq> Raises e"
    "check_tframex w \<noteq> Raises e"
    by (rule check_database_connection_no_raise check_redis_connection_no_raise
        check_tframex_no_raise)+
  moreover have "\<exists>msg. check_database_connection w = Returns (database_up w, msg) \<and>
         (if database_up w then msg = ''Connected''
          else \<exists>e'. msg = str e' \<and> database_fault w e')" if "responsive w"
    using database_probe [OF that] by auto
  moreover have "\<exists>msg. check_redis_connection w = Returns (redis_up w, msg) \<and>
         (if redis_up w then msg = ''Connected''
          else \<exists>e'. msg = str e' \<and> redis_fault w e')" if "responsive w"
    using redis_probe [OF that] by auto
  moreover have "\<exists>msg. check_tframex w = Returns (tframex_up w, msg) \<and>
         (if tframex_up w then msg = tframex_message w
          else \<exists>e'. msg = str e' \<and> tframex_fault w e')" if "responsive w"
    using tframex_probe [OF that] by auto
  ultimately show ?thesis by blast
qed

theorem probes_total_at_boundary_witness:
  "responsive world_redis_refused \<and>
   check_redis_connection world_redis_refused = Returns (False, ''Connection refused'')"
proof -
  have down: "\<not> redis_up world_redis_refused"
    by code_simp
  have fault: "e = Exception ''Connection refused''" if "redis_fault world_redis_refused e" for e
    using that
    by (simp add: redis_fault_def redis_target_def getenv_redis_port_def world_redis_refused_def
          world_up_def)
  from probes_total_at_boundary [of world_redis_refused "Exception []"]
    world_redis_refused_responsive down
  have "\<exists>msg. check_redis_connection world_redis_refused = Returns (False, msg) \<and>
          (\<exists>e'. msg = str e' \<and> redis_fault world_redis_refused e')"
    by simp
  then obtain msg e' where "check_redis_connection world_redis_refused = Returns (False, msg)"
    and "msg = str e'" and "redis_fault world_redis_refused e'"
    by blast
  with fault [of e'] show ?thesis
    using world_redis_refused_responsive by simp
qed

subsection \<open>One result for each probe\<close>

lemma forced_failures_responsive: "responsive (forced_failures fd fr ft)"
  by (simp add: responsive_def forced_failures_def world_up_def)

lemma forced_failures_up:
  "database_up (forced_failures fd fr ft) = (\<not> fd)"
  "redis_up (forced_failures fd fr ft) = (\<not> fr)"
  "tframex_up (forced_failures fd fr ft) = (\<not> ft)"
  by (simp_all add: forced_failures_def world_up_def database_up_def redis_up_def tframex_up_def
        redis_target_def getenv_redis_port_def)

text \<open>
  C2. The probes are the three the module names: \<open>database\<close>, \<open>redis\<close> and \<open>tframex\<close>.
  When the dependencies answer, one run of \<open>/health/ready\<close> (and of \<open>/health/detailed\<close>)
  yields one entry for each of them and no other, and the entry of a probe says \<open>fail\<close>
  (\<open>unhealthy\<close>) exactly when the dependency of that probe failed, whatever the other two
  did. Every subset of the three probes is the set of failing probes of some such world.
\<close>

theorem one_result_per_probe:
  assumes "responsive w"
  shows "(\<exists>body code checks. readiness w = Returns (body, code) \<and>
            jget ''checks'' body = Some checks \<and>
            jkeys checks = [''database'', ''redis'', ''tframex''] \<and>
            jpath [''database'', ''status''] checks = Some (JStr (if database_up w then ''pass'' else ''fail'')) \<and>
            jpath [''redis'', ''status''] checks = Some (JStr (if redis_up w then ''pass'' else ''fail'')) \<and>
            jpath [''tframex'', ''status''] checks = Some (JStr (if tframex_up w then ''pass'' else ''fail''))) \<and>
         (\<exists>body code components. detailed_health START_TIME w = Returns (body, code) \<and>
            jget ''components'' body = Some components \<and>
            jkeys components = [''database'', ''redis'', ''tframex''] \<and>
            jpath [''database'', ''status''] components = Some (JStr (if database_up w then ''healthy'' else ''unhealthy'')) \<and>
            jpath [''redis'', ''status''] components = Some (JStr (if redis_up w then ''healthy'' else ''unhealthy'')) \<and>
            jpath [''tframex'', ''status''] components = Some (JStr (if tframex_up w then ''healthy'' else ''unhealthy''))) \<and>
         responsive (forced_failures fd fr ft) \<and>
         database_up (forced_failures fd fr ft) = (\<not> fd) \<and>
         redis_up (forced_failures fd fr ft) = (\<not> fr) \<and>
         tframex_up (forced_failures fd fr ft) = (\<not> ft)"
proof -
  from database_probe [OF assms] obtain ma
    where a: "check_database_connection w = Returns (database_up w, ma)" by auto
  from redis_probe [OF assms] obtain mb
    where b: "check_redis_connection w = Returns (redis_up w, mb)" by auto
  from tframex_probe [OF assms] obtain mc
    where c: "check_tframex w = Returns (tframex_up w, mc)" by auto
  from db_metrics_returns [OF assms] obtain m where m: "db_metrics w = Returns m"
    by blast
  from tframex_details_returns [OF assms] obtain d where d: "tframex_details w = Returns d"
    by blast
  show ?thesis
    unfolding readiness_unfold [OF a b c] detailed_health_unfold [OF a b c m d]
    by (simp add: forced_failures_responsive forced_failures_up)
qed

theorem one_result_per_probe_witness:
  "responsive world_redis_refused \<and>
   map_option (jpath [''checks'', ''database'', ''status'']) (body_of (readiness world_redis_refused))
     = Some (Some (JStr ''pass'')) \<and>
   map_option (jpath [''checks'', ''redis'', ''status'']) (body_of (readiness world_redis_refused))
     = Some (Some (JStr ''fail'')) \<and>
   map_option (jpath [''checks'', ''tframex'', ''status'']) (body_of (readiness world_redis_refused))
     = Some (Some (JStr ''pass''))"
proof -
  have up: "database_up world_redis_refused" "\<not> redis_up world_redis_refused"
    "tframex_up world_redis_refused"
    by code_simp+
  note run = one_result_per_probe [OF world_redis_refused_responsive, of 0 False True False]
  from run have "\<exists>body code checks. readiness world_redis_refused = Returns (body, code) \<and>
      jget ''checks'' body = Some checks \<and>
      jkeys checks = [''database'', ''redis'', ''tframex''] \<and>
      jpath [''database'', ''status''] checks
        = Some (JStr (if database_up world_redis_refused then ''pass'' else ''fail'')) \<and>
      jpath [''redis'', ''status''] checks
        = Some (JStr (if redis_up world_redis_refused then ''pass'' else ''fail'')) \<and>
      jpath [''tframex'', ''status''] checks
        = Some (JStr (if tframex_up world_redis_refused then ''pass'' else ''fail''))"
    by (rule conjunct1)
  then obtain body code checks where "readiness world_redis_refused = Returns (body, code)"
    and "jget ''checks'' body = Some checks"
    and "jpath [''database'', ''status''] checks
           = Some (JStr (if database_up world_redis_refused then ''pass'' else ''fail''))"
    and "jpath [''redis'', ''status''] checks
           = Some (JStr (if redis_up world_redis_refused then ''pass'' else ''fail''))"
    and "jpath [''tframex'', ''status''] checks
           = Some (JStr (if tframex_up world_redis_refused then ''pass'' else ''fail''))"
    by blast
  with up show ?thesis
    using world_redis_refused_responsive by simp
qed

subsection \<open>The keys of the component entries\<close>

text \<open>
  C4, as the claim states it, fails: with every dependency up, neither the \<open>checks\<close> of
  \<open>/health/ready\<close> nor the \<open>components\<close> of \<open>/health/detailed\<close> has a key \<open>registry\<close>;
  the entry of the registry probe is under the key \<open>tframex\<close>.
\<close>

theorem component_keys_counterexample:
  "map_option (jpath [''checks'', ''registry'']) (body_of (readiness world_up)) = Some None \<and>
   map_option (jpath [''checks'', ''tframex'', ''status'']) (body_of (readiness world_up))
     = Some (Some (JStr ''pass'')) \<and>
   map_option (jpath [''components'', ''registry'']) (body_of (detailed_health 0 world_up)) = Some None \<and>
   map_option (jpath [''components'', ''tframex'', ''status'']) (body_of (detailed_health 0 world_up))
     = Some (Some (JStr ''healthy''))"
  by code_simp

text \<open>
  C4, amended. The entries are under exactly the keys \<open>database\<close>, \<open>redis\<close> and
  \<open>tframex\<close>, in that order, each with a \<open>status\<close> (\<open>pass\<close> or \<open>fail\<close> for readiness,
  \<open>healthy\<close> or \<open>unhealthy\<close> for detailed) and a \<open>message\<close>.
\<close>

theorem component_keys:
  assumes "responsive w"
  shows "(\<exists>body code checks. readiness w = Returns (body, code) \<and>
            jget ''checks'' body = Some checks \<and>
            jkeys checks = [''database'', ''redis'', ''tframex''] \<and>
            (\<forall>name \<in> set (jkeys checks). \<exists>entry status message.
               jget name checks = Some entry \<and> jkeys entry = [''status'', ''message''] \<and>
               jget ''status'' entry = Some (JStr status) \<and> status \<in> {''pass'', ''fail''} \<and>
               jget ''message'' entry = Some (JStr message))) \<and>
         (\<exists>body code components. detailed_health START_TIME w = Returns (body, code) \<and>
            jget ''components'' body = Some components \<and>
            jkeys components = [''database'', ''redis'', ''tframex''] \<and>
            (\<forall>name \<in> set (jkeys components). \<exists>entry status message.
               jget name components = Some entry \<and>
               jget ''status'' entry = Some (JStr status) \<and> status \<in> {''healthy'', ''unhealthy''} \<and>
               jget ''message'' entry = Some (JStr message)))"
proof -
  from database_probe [OF assms] obtain a ma
    where a: "check_database_connection w = Returns (a, ma)" by auto
  from redis_probe [OF assms] obtain b mb
    where b: "check_redis_connection w = Returns (b, mb)" by auto
  from tframex_probe [OF assms] obtain c mc
    where c: "check_tframex w = Returns (c, mc)" by auto
  from db_metrics_returns [OF assms] obtain m where m: "db_metrics w = Returns m"
    by blast
  from tframex_details_returns [OF assms] obtain d where d: "tframex_details w = Returns d"
    by blast
  show ?thesis
    unfolding readiness_unfold [OF a b c] detailed_health_unfold [OF a b c m d]
    by simp
qed

theorem component_keys_witness:
  "responsive world_up \<and>
   map_option (\<lambda>body. map_option jkeys (jget ''checks'' body)) (body_of (readiness world_up))
     = Some (Some [''database'', ''redis'', ''tframex''])"
proof -
  from component_keys [OF world_up_responsive, of 0]
  obtain body code checks where "readiness world_up = Returns (body, code)"
    and "jget ''checks'' body = Some checks"
    and "jkeys checks = [''database'', ''redis'', ''tframex'']"
    by blast
  then show ?thesis
    using world_up_responsive by simp
qed

subsection \<open>A fault of the metrics queries\<close>

lemma calls_ignore_metrics:
  "getenv (metrics_succeed p f u w) = getenv w"
  "getenv_default (metrics_succeed p f u w) = getenv_default w"
  "getenv_redis_port (metrics_succeed p f u w) = getenv_redis_port w"
  "redis_ping (metrics_succeed p f u w) = redis_ping w"
  by (simp_all add: metrics_succeed_def getenv_def getenv_default_def getenv_redis_port_def
        redis_ping_def redis_connect_def fun_eq_iff Let_def split: option.splits sum.splits)

lemma probes_ignore_metrics:
  "check_database_connection (metrics_succeed p f u w) = check_database_connection w"
  "check_redis_connection (metrics_succeed p f u w) = check_redis_connection w"
  "check_tframex (metrics_succeed p f u w) = check_tframex w"
  "tframex_details (metrics_succeed p f u w) = tframex_details w"
  by (simp_all add: check_database_connection_def check_redis_connection_def
        check_tframex_def tframex_details_def calls_ignore_metrics)
     (simp_all add: metrics_succeed_def)

lemma db_metrics_succeed:
  "db_metrics (metrics_succeed p f u w) =
     Returns (JDict [(''projects'', JInt p), (''flows'', JInt f), (''users'', JInt u)])"
  by (simp add: metrics_succeed_def db_metrics_def)

lemma db_metrics_fault:
  assumes "responsive w" and "metrics_fault w e"
  shows "db_metrics w = Returns JNull"
proof -
  from assms(1) have nb: "LocalSession w \<noteq> Blocks" "count_projects w \<noteq> Blocks"
    "count_flows w \<noteq> Blocks" "count_users w \<noteq> Blocks" "session_close w \<noteq> Blocks"
    by (simp_all add: responsive_def)
  show ?thesis
    using nb assms(2)
    by (cases "LocalSession w"; cases "count_projects w"; cases "count_flows w";
        cases "count_users w"; cases "session_close w")
       (auto simp: db_metrics_def metrics_fault_def)
qed

text \<open>
  C5. When a call of the metrics block raises, \<open>/health/detailed\<close> still responds, the
  \<open>metrics\<close> of the database component is null, and the status code is the one the three
  probes decide: the same code as in the world where the metrics block succeeds.
\<close>

theorem metrics_fault_leaves_status_code:
  assumes "responsive w" and "metrics_fault w e"
  shows "\<exists>body code. detailed_health START_TIME w = Returns (body, code) \<and>
           jpath [''components'', ''database'', ''metrics''] body = Some JNull \<and>
           code = (if all_probes_ok w then 200 else 503) \<and>
           (\<exists>body'. detailed_health START_TIME (metrics_succeed p f u w) = Returns (body', code) \<and>
              jpath [''components'', ''database'', ''metrics''] body' =
                Some (JDict [(''projects'', JInt p), (''flows'', JInt f), (''users'', JInt u)]))"
proof -
  from database_probe [OF assms(1)] obtain a ma
    where a: "check_database_connection w = Returns (a, ma)" by auto
  from redis_probe [OF assms(1)] obtain b mb
    where b: "check_redis_connection w = Returns (b, mb)" by auto
  from tframex_probe [OF assms(1)] obtain c mc
    where c: "check_tframex w = Returns (c, mc)" by auto
  from tframex_details_returns [OF assms(1)] obtain d where d: "tframex_details w = Returns d"
    by blast
  note m = db_metrics_fault [OF assms]
  let ?w' = "metrics_succeed p f u w"
  have a': "check_database_connection ?w' = Returns (a, ma)"
    and b': "check_redis_connection ?w' = Returns (b, mb)"
    and c': "check_tframex ?w' = Returns (c, mc)"
    and d': "tframex_details ?w' = Returns d"
    by (simp_all add: probes_ignore_metrics a b c d)
  have ok: "all_probes_ok w \<longleftrightarrow> a \<and> b \<and> c"
    by (simp add: all_probes_ok_def a b c)
  show ?thesis
    unfolding detailed_health_unfold [OF a b c m d]
      detailed_health_unfold [OF a' b' c' db_metrics_succeed d'] ok
    by simp
qed

theorem metrics_fault_leaves_status_code_witness:
  "responsive world_no_flows_table \<and>
   metrics_fault world_no_flows_table (Exception ''no such table: flows'') \<and>
   map_option (jpath [''components'', ''database'', ''metrics''])
     (body_of (detailed_health 0 world_no_flows_table)) = Some (Some JNull) \<and>
   code_of (detailed_health 0 world_no_flows_table) = Some 200 \<and>
   code_of (detailed_health 0 (metrics_succeed 3 5 2 world_no_flows_table)) = Some 200"
proof -
  have r: "responsive world_no_flows_table"
    by (simp add: responsive_def world_no_flows_table_def world_up_def redis_server_up_def)
  have f: "metrics_fault world_no_flows_table (Exception ''no such table: flows'')"
    by (simp add: metrics_fault_def world_no_flows_table_def)
  have ok: "all_probes_ok world_no_flows_table"
    by code_simp
  from metrics_fault_leaves_status_code [OF r f, of 0 3 5 2] ok r f
  show ?thesis by auto
qed

subsection \<open>Liveness\<close>

text \<open>
  C6. \<open>/health/live\<close> answers 200 with status \<open>alive\<close> in every world, and its result is
  the same whatever the environment, the database, the cache and the registry do: it
  depends on the clock alone.
\<close>

theorem liveness_probes_nothing:
  "snd (liveness w) = 200 \<and>
   jget ''status'' (fst (liveness w)) = Some (JStr ''alive'') \<and>
   jget ''timestamp'' (fst (liveness w)) = Some (JStr (utcnow_isoformat w)) \<and>
   liveness (w\<lparr>environ := en, int_of_str := ios, engine_connect := ec, conn_execute := ce,
               result_fetchone := rf, conn_close := cc, redis_server_at := rs,
               redis_timeout_error := rte, get_tframex_app_instance := ga,
               get_tframex_app_instance_again := gb, LocalSession := ls, count_projects := cp,
               count_flows := cf, count_users := cu, session_close := sc\<rparr>) = liveness w"
  by (simp add: liveness_def)

subsection \<open>The storage backend descriptor\<close>

lemma py_startswith_iff: "py_startswith s sub \<longleftrightarrow> (\<exists>q. s = sub @ q)"
  by (induction s sub rule: py_startswith.induct) auto

lemma py_in_iff: "py_in sub s \<longleftrightarrow> (\<exists>p q. s = p @ sub @ q)"
proof (induction s)
  case Nil
  then show ?case by auto
next
  case (Cons d s)
  show ?case
  proof
    assume "py_in sub (d # s)"
    then consider "py_startswith (d # s) sub" | "py_in sub s" by auto
    then show "\<exists>p q. d # s = p @ sub @ q"
    proof cases
      case 1
      then obtain q where "d # s = sub @ q" by (auto simp: py_startswith_iff)
      then have "d # s = [] @ sub @ q" by simp
      then show ?thesis by blast
    next
      case 2
      with Cons obtain p q where "s = p @ sub @ q" by blast
      then have "d # s = (d # p) @ sub @ q" by simp
      then show ?thesis by blast
    qed
  next
    assume "\<exists>p q. d # s = p @ sub @ q"
    then obtain p q where pq: "d # s = p @ sub @ q" by blast
    show "py_in sub (d # s)"
    proof (cases p)
      case Nil
      with pq have "py_startswith (d # s) sub" by (auto simp: py_startswith_iff)
      then show ?thesis by simp
    next
      case (Cons c p')
      with pq have "s = p' @ sub @ q" by simp
      with Cons.IH have "py_in sub s" by blast
      then show ?thesis by simp
    qed
  qed
qed

text \<open>
  C10. The \<open>environment.database_url\<close> of \<open>/health/detailed\<close> is \<open>postgresql\<close> when
  \<open>postgresql\<close> occurs as a substring of the value of \<open>DATABASE_URL\<close> (the empty string
  when the variable is unset), and \<open>sqlite\<close> in every other case.
\<close>

theorem database_url_descriptor:
  assumes "responsive w"
  shows "\<exists>body code. detailed_health START_TIME w = Returns (body, code) \<and>
           jpath [''environment'', ''database_url''] body =
             Some (JStr (if \<exists>p q. (case environ w ''DATABASE_URL'' of None \<Rightarrow> [] | Some v \<Rightarrow> v)
                                     = p @ ''postgresql'' @ q
                         then ''postgresql'' else ''sqlite''))"
proof -
  from database_probe [OF assms] obtain a ma
    where a: "check_database_connection w = Returns (a, ma)" by auto
  from redis_probe [OF assms] obtain b mb
    where b: "check_redis_connection w = Returns (b, mb)" by auto
  from tframex_probe [OF assms] obtain c mc
    where c: "check_tframex w = Returns (c, mc)" by auto
  from db_metrics_returns [OF assms] obtain m where m: "db_metrics w = Returns m"
    by blast
  from tframex_details_returns [OF assms] obtain d where d: "tframex_details w = Returns d"
    by blast
  show ?thesis
    unfolding detailed_health_unfold [OF a b c m d]
    by (simp add: py_in_iff getenv_default_def)
qed

theorem database_url_descriptor_witness:
  "responsive world_up \<and>
   map_option (jpath [''environment'', ''database_url'']) (body_of (detailed_health 0 world_up))
     = Some (Some (JStr ''postgresql''))"
proof -
  have "environ world_up ''DATABASE_URL'' = Some ''postgresql://db/app''"
    by (simp add: world_up_def)
  moreover have "''postgresql://db/app'' = [] @ ''postgresql'' @ ''://db/app''"
    by simp
  ultimately have "\<exists>p q. (case environ world_up ''DATABASE_URL'' of None \<Rightarrow> [] | Some v \<Rightarrow> v)
                      = p @ ''postgresql'' @ q"
    by (metis option.simps(5))
  with database_url_descriptor [OF world_up_responsive, of 0] show ?thesis
    using world_up_responsive by auto
qed

subsection \<open>Uptime\<close>

lemma round_half_even_mono:
  assumes "x \<le> y"
  shows "round_half_even x \<le> round_half_even y"
proof -
  have fl: "\<lfloor>x\<rfloor> \<le> \<lfloor>y\<rfloor>" using assms by (rule floor_mono)
  have lo: "\<lfloor>y\<rfloor> \<le> round_half_even y"
    by (simp add: round_half_even_def Let_def)
  have hi: "round_half_even x \<le> \<lfloor>x\<rfloor> + 1"
    by (simp add: round_half_even_def Let_def)
  show ?thesis
  proof (cases "\<lfloor>x\<rfloor> = \<lfloor>y\<rfloor>")
    case False
    with fl have "\<lfloor>x\<rfloor> + 1 \<le> \<lfloor>y\<rfloor>" by simp
    with lo hi show ?thesis by linarith
  next
    case True
    with assms have "x - of_int \<lfloor>x\<rfloor> \<le> y - of_int \<lfloor>x\<rfloor>" by simp
    with True show ?thesis
      by (auto simp: round_half_even_def Let_def)
  qed
qed

lemma bitlen_rat_bounds:
  assumes "0 < p"
  shows "power_int 2 (bitlen p - 1) \<le> (of_int p :: rat)" "(of_int p :: rat) < power_int 2 (bitlen p)"
proof -
  from bitlen_bounds [OF assms] have lo: "2 ^ nat (bitlen p - 1) \<le> p" and hi: "p < 2 ^ nat (bitlen p)"
    by simp_all
  have b: "1 \<le> bitlen p"
    using assms bitlen_eq_zero_iff [of p] bitlen_nonneg [of p] by linarith
  from lo have "(of_int (2 ^ nat (bitlen p - 1)) :: rat) \<le> of_int p"
    by (simp only: of_int_le_iff)
  then have "(2 :: rat) ^ nat (bitlen p - 1) \<le> of_int p" by simp
  moreover have "power_int (2 :: rat) (bitlen p - 1) = 2 ^ nat (bitlen p - 1)"
    using b by (simp add: power_int_def)
  ultimately show "power_int 2 (bitlen p - 1) \<le> (of_int p :: rat)" by simp
  from hi have "(of_int p :: rat) < of_int (2 ^ nat (bitlen p))"
    by (simp only: of_int_less_iff)
  then have "(of_int p :: rat) < 2 ^ nat (bitlen p)" by simp
  moreover have "power_int (2 :: rat) (bitlen p) = 2 ^ nat (bitlen p)"
    using b by (simp add: power_int_def)
  ultimately show "(of_int p :: rat) < power_int 2 (bitlen p)" by simp
qed

lemma binade_bounds:
  assumes "x \<noteq> 0"
  shows "power_int 2 (binade x) \<le> \<bar>x\<bar>" and "\<bar>x\<bar> < power_int 2 (binade x + 1)"
proof -
  obtain p q where pq: "quotient_of \<bar>x\<bar> = (p, q)" by (cases "quotient_of \<bar>x\<bar>")
  then have q: "0 < q" by (rule quotient_of_denom_pos)
  from pq have x: "\<bar>x\<bar> = of_int p / of_int q" by (rule quotient_of_div)
  from assms have "0 < \<bar>x\<bar>" by simp
  with x q have p: "0 < p" by (simp add: zero_less_divide_iff)
  define d where "d = bitlen p - bitlen q"
  note bp = bitlen_rat_bounds [OF p] and bq = bitlen_rat_bounds [OF q]
  have qpos: "(0 :: rat) < of_int q" and ppos: "(0 :: rat) \<le> of_int p" using p q by simp_all
  have two: "(0 :: rat) < power_int 2 n" for n by simp
  have "of_int p / of_int q < power_int 2 (bitlen p) / (power_int 2 (bitlen q - 1) :: rat)"
    by (rule frac_less [OF ppos bp(2) two bq(1)])
  also have "\<dots> = power_int 2 (bitlen p - (bitlen q - 1))"
    by (simp add: power_int_diff)
  also have "bitlen p - (bitlen q - 1) = d + 1" by (simp add: d_def)
  finally have hi: "\<bar>x\<bar> < power_int 2 (d + 1)" by (simp only: x)
  have "power_int 2 (bitlen p - 1) / (power_int 2 (bitlen q) :: rat) < of_int p / of_int q"
    by (rule frac_less2 [OF two bp(1) qpos bq(2)])
  moreover have "power_int 2 (bitlen p - 1) / power_int (2::rat) (bitlen q)
       = power_int 2 (bitlen p - 1 - bitlen q)"
    by (simp add: power_int_diff)
  moreover have "bitlen p - 1 - bitlen q = d - 1" by (simp add: d_def)
  ultimately have lo: "power_int 2 (d - 1) < \<bar>x\<bar>" by (simp only: x)
  have b: "binade x = (if power_int 2 d \<le> \<bar>x\<bar> then d else d - 1)"
    by (simp add: binade_def pq d_def)
  show "power_int 2 (binade x) \<le> \<bar>x\<bar>"
    using lo by (simp add: b)
  show "\<bar>x\<bar> < power_int 2 (binade x + 1)"
    using hi by (simp add: b)
qed


lemma round_half_even_of_int: "round_half_even (of_int n) = n"
  by (simp add: round_half_even_def)

lemma binade_mono:
  assumes "0 < x" and "x \<le> y"
  shows "binade x \<le> binade y"
proof (rule ccontr)
  assume "\<not> binade x \<le> binade y"
  then have "binade y + 1 \<le> binade x" by simp
  then have "power_int (2 :: rat) (binade y + 1) \<le> power_int 2 (binade x)"
    by (intro power_int_increasing) simp_all
  moreover have "y < power_int 2 (binade y + 1)"
    using binade_bounds(2) [of y] assms by simp
  moreover have "power_int 2 (binade x) \<le> x"
    using binade_bounds(1) [of x] assms by simp
  ultimately show False using assms by linarith
qed

lemma quantum_pos: "0 < quantum x"
  by (simp add: quantum_def)

lemma quantum_times:
  "of_int (2 ^ 52) * quantum x = power_int 2 (max (binade x) (- 1022))"
  "of_int (2 ^ 53) * quantum x = power_int 2 (max (binade x) (- 1022) + 1)"
proof -
  let ?e = "max (binade x) (- 1022)"
  have q: "quantum x = power_int 2 ?e / 2 ^ 52"
    by (simp add: quantum_def power_int_diff)
  show "of_int (2 ^ 52) * quantum x = power_int 2 ?e"
    by (simp add: q)
  have "power_int (2 :: rat) (?e + 1) = power_int 2 ?e * 2"
    by (rule power_int_add_1) simp
  then show "of_int (2 ^ 53) * quantum x = power_int 2 (?e + 1)"
    by (simp add: q)
qed

lemma binary64_pos_upper:
  assumes "0 < x"
  shows "binary64_pos x \<le> power_int 2 (max (binade x) (- 1022) + 1)"
proof -
  let ?e = "max (binade x) (- 1022)"
  have "x < power_int 2 (binade x + 1)"
    using binade_bounds(2) [of x] assms by simp
  also have "\<dots> \<le> power_int 2 (?e + 1)"
    by (intro power_int_increasing) simp_all
  also have "\<dots> = of_int (2 ^ 53) * quantum x"
    by (simp only: quantum_times)
  finally have "x / quantum x \<le> of_int (2 ^ 53)"
    using quantum_pos [of x] by (simp add: pos_divide_le_eq)
  then have "round_half_even (x / quantum x) \<le> 2 ^ 53"
    using round_half_even_mono [of "x / quantum x" "of_int (2 ^ 53)"]
    by (simp only: round_half_even_of_int)
  then have "(of_int (round_half_even (x / quantum x)) :: rat) \<le> of_int (2 ^ 53)"
    by (simp only: of_int_le_iff)
  then have "binary64_pos x \<le> of_int (2 ^ 53) * quantum x"
    unfolding binary64_pos_def using quantum_pos [of x] by (simp only: mult_le_cancel_right_pos)
  then show ?thesis by (simp only: quantum_times)
qed

lemma binary64_pos_lower:
  assumes "0 < x" and "- 1022 \<le> binade x"
  shows "power_int 2 (binade x) \<le> binary64_pos x"
proof -
  have e: "max (binade x) (- 1022) = binade x" using assms(2) by simp
  have "of_int (2 ^ 52) * quantum x = power_int 2 (binade x)"
    by (simp only: quantum_times e)
  also have "\<dots> \<le> x"
    using binade_bounds(1) [of x] assms by simp
  finally have "of_int (2 ^ 52) \<le> x / quantum x"
    using quantum_pos [of x] by (simp add: pos_le_divide_eq)
  then have "2 ^ 52 \<le> round_half_even (x / quantum x)"
    using round_half_even_mono [of "of_int (2 ^ 52)" "x / quantum x"]
    by (simp only: round_half_even_of_int)
  then have "(of_int (2 ^ 52) :: rat) \<le> of_int (round_half_even (x / quantum x))"
    by (simp only: of_int_le_iff)
  then have "of_int (2 ^ 52) * quantum x \<le> binary64_pos x"
    unfolding binary64_pos_def using quantum_pos [of x] by (simp only: mult_le_cancel_right_pos)
  then show ?thesis by (simp only: quantum_times e)
qed

lemma binary64_pos_nonneg:
  assumes "0 < x"
  shows "0 \<le> binary64_pos x"
proof -
  have "0 \<le> x / quantum x" using assms quantum_pos [of x] by simp
  then have "round_half_even 0 \<le> round_half_even (x / quantum x)"
    by (rule round_half_even_mono)
  moreover have "round_half_even 0 = 0"
    by (simp add: round_half_even_def)
  ultimately have "0 \<le> round_half_even (x / quantum x)"
    by simp
  then show ?thesis
    unfolding binary64_pos_def using quantum_pos [of x] by simp
qed

lemma binary64_pos_mono:
  assumes "0 < x" and "x \<le> y"
  shows "binary64_pos x \<le> binary64_pos y"
proof -
  let ?ex = "max (binade x) (- 1022)" and ?ey = "max (binade y) (- 1022)"
  have y: "0 < y" using assms by simp
  have le: "?ex \<le> ?ey" using binade_mono [OF assms] by simp
  show ?thesis
  proof (cases "?ex = ?ey")
    case True
    then have q: "quantum x = quantum y" by (simp add: quantum_def)
    have "x / quantum y \<le> y / quantum y"
      using assms(2) quantum_pos [of y] by (simp add: divide_right_mono)
    then have "round_half_even (x / quantum y) \<le> round_half_even (y / quantum y)"
      by (rule round_half_even_mono)
    then have "(of_int (round_half_even (x / quantum y)) :: rat)
        \<le> of_int (round_half_even (y / quantum y))"
      by (simp only: of_int_le_iff)
    then show ?thesis
      unfolding binary64_pos_def q using quantum_pos [of y] by (simp only: mult_le_cancel_right_pos)
  next
    case False
    with le have lt: "?ex + 1 \<le> ?ey" by simp
    then have ny: "- 1022 \<le> binade y" and ey: "?ey = binade y" by simp_all
    have "binary64_pos x \<le> power_int 2 (?ex + 1)"
      by (rule binary64_pos_upper [OF assms(1)])
    also have "\<dots> \<le> power_int 2 (binade y)"
      using lt unfolding ey by (intro power_int_increasing) simp_all
    also have "\<dots> \<le> binary64_pos y"
      by (rule binary64_pos_lower [OF y ny])
    finally show ?thesis .
  qed
qed

lemma binary64_mono:
  assumes "x \<le> y"
  shows "binary64 x \<le> binary64 y"
proof -
  consider "0 < x" | "y < 0" | "x \<le> 0" "0 \<le> y" by linarith
  then show ?thesis
  proof cases
    case 1
    with assms have "0 < y" by simp
    with 1 binary64_pos_mono [OF 1 assms] show ?thesis by (simp add: binary64_def)
  next
    case 2
    with assms have x: "x < 0" by simp
    from 2 assms have "0 < - y" "- y \<le> - x" by simp_all
    then have "binary64_pos (- y) \<le> binary64_pos (- x)" by (rule binary64_pos_mono)
    with 2 x show ?thesis by (simp add: binary64_def)
  next
    case 3
    have "binary64 x \<le> 0"
      using 3(1) binary64_pos_nonneg [of "- x"] by (simp add: binary64_def)
    moreover have "0 \<le> binary64 y"
      using 3(2) binary64_pos_nonneg [of y] by (simp add: binary64_def)
    ultimately show ?thesis by simp
  qed
qed

lemma py_round_mono:
  assumes "x \<le> y"
  shows "py_round x n \<le> py_round y n"
proof -
  have "x * 10 ^ n \<le> y * 10 ^ n" using assms by simp
  then have "round_half_even (x * 10 ^ n) \<le> round_half_even (y * 10 ^ n)"
    by (rule round_half_even_mono)
  then have "(of_int (round_half_even (x * 10 ^ n)) :: rat) / 10 ^ n
      \<le> of_int (round_half_even (y * 10 ^ n)) / 10 ^ n"
    by (simp add: divide_right_mono)
  then show ?thesis
    unfolding py_round_def by (rule binary64_mono)
qed

text \<open>
  C7. \<open>START_TIME\<close> is the same in both calls, since no call changes it. If the clock of the
  second call is not earlier than the clock of the first, the \<open>uptime_seconds\<close> of the
  second is not less than that of the first: the float subtraction and \<open>round\<close> both keep
  the order of their arguments.
\<close>

theorem uptime_seconds_monotone:
  assumes "time_time w1 \<le> time_time w2"
  shows "\<exists>u1 u2.
           jget ''uptime_seconds'' (fst (health (module_START_TIME w0) w1)) = Some (JFloat u1) \<and>
           jget ''uptime_seconds'' (fst (health (module_START_TIME w0) w2)) = Some (JFloat u2) \<and>
           u1 \<le> u2"
proof -
  let ?START_TIME = "module_START_TIME w0"
  from assms have "time_time w1 - ?START_TIME \<le> time_time w2 - ?START_TIME" by simp
  then have "binary64 (time_time w1 - ?START_TIME) \<le> binary64 (time_time w2 - ?START_TIME)"
    by (rule binary64_mono)
  then have "py_round (binary64 (time_time w1 - ?START_TIME)) 2
      \<le> py_round (binary64 (time_time w2 - ?START_TIME)) 2"
    by (rule py_round_mono)
  then show ?thesis
    by (simp add: health_def Let_def)
qed

theorem uptime_seconds_monotone_witness:
  "time_time world_up \<le> time_time (world_up\<lparr>time_time := 7451 / 2 + 1 / 100\<rparr>) \<and>
   jget ''uptime_seconds'' (fst (health (module_START_TIME (world_up\<lparr>time_time := 1000\<rparr>)) world_up))
     = Some (JFloat (5451 / 2)) \<and>
   jget ''uptime_seconds''
     (fst (health (module_START_TIME (world_up\<lparr>time_time := 1000\<rparr>))
        (world_up\<lparr>time_time := 7451 / 2 + 1 / 100\<rparr>)))
     = Some (JFloat (1498364968309883 / 549755813888))"
proof -
  have h: "time_time world_up \<le> time_time (world_up\<lparr>time_time := 7451 / 2 + 1 / 100\<rparr>)"
    by (simp add: world_up_def)
  have a: "jget ''uptime_seconds''
             (fst (health (module_START_TIME (world_up\<lparr>time_time := 1000\<rparr>)) world_up))
     = Some (JFloat (5451 / 2))"
    by code_simp
  have b: "jget ''uptime_seconds''
     (fst (health (module_START_TIME (world_up\<lparr>time_time := 1000\<rparr>))
        (world_up\<lparr>time_time := 7451 / 2 + 1 / 100\<rparr>)))
     = Some (JFloat (1498364968309883 / 549755813888))"
    by code_simp
  from uptime_seconds_monotone [OF h, of "world_up\<lparr>time_time := 1000\<rparr>"] h a b
  show ?thesis by simp
qed
















subsection \<open>Timeouts\<close>

text \<open>
  C9, as the claim states it, fails: the database probe passes no timeout to the engine,
  so when the database never answers the connection attempt the probe does not return,
  and neither do \<open>/health/ready\<close> and \<open>/health/detailed\<close>. The cache probe bounds the
  connection attempt only: when the server accepts the connection and then stays silent,
  the probe does not return either.
\<close>

theorem probes_block_counterexample:
  "check_database_connection world_db_hangs = Blocks \<and> readiness world_db_hangs = Blocks \<and>
   detailed_health 0 world_db_hangs = Blocks \<and>
   check_redis_connection world_redis_silent = Blocks \<and> readiness world_redis_silent = Blocks"
  by code_simp

text \<open>
  C9, amended. The cache probe applies a connect timeout of two seconds to its client:
  when the connection to the cache server is not established within two seconds, and so
  when the server never answers, the probe does not wait but returns \<open>ok = false\<close> with
  the message of the client's timeout error.
\<close>

theorem redis_connect_timeout:
  assumes "getenv_redis_port w = Returns p"
    and "longer_than (connect_after (redis_target w p)) 2"
  shows "check_redis_connection w = Returns (False, str (redis_timeout_error w))"
  using assms
  by (simp add: check_redis_connection_def redis_ping_def redis_connect_def redis_target_def
        Let_def)

theorem redis_connect_timeout_witness:
  "getenv_redis_port world_redis_unreachable = Returns 6379 \<and>
   longer_than (connect_after (redis_target world_redis_unreachable 6379)) 2 \<and>
   check_redis_connection world_redis_unreachable = Returns (False, ''Timeout connecting to server'')"
proof -
  have p: "getenv_redis_port world_redis_unreachable = Returns 6379"
    by (simp add: getenv_redis_port_def world_redis_unreachable_def world_up_def)
  have l: "longer_than (connect_after (redis_target world_redis_unreachable 6379)) 2"
    by (simp add: redis_target_def world_redis_unreachable_def)
  have e: "str (redis_timeout_error world_redis_unreachable) = ''Timeout connecting to server''"
    by (simp add: world_redis_unreachable_def world_up_def)
  from redis_connect_timeout [OF p l] p l e show ?thesis by simp
qed

end
